theory Spec2Isabelle
  imports Main
begin

section \<open>Parchemin: the Scroll search and remote-search subsystem\<close>

text \<open>
  A shallow embedding of \<^verbatim>\<open>src/parchemin.js\<close>. A Scroll and the part of the document it
  owns are one record; every method takes the record and returns the updated one. A
  method that dereferences an element which \<^verbatim>\<open>querySelector\<close> does not find returns
  \<open>Inl TypeError\<close>. Timers and network calls live in a second record, the event loop.
  The browser's HTML parser, which turns the markup the Scroll writes into rows, is a
  parameter \<open>h\<close> of the methods that assign to \<^verbatim>\<open>innerHTML\<close>.

  Strings are \<open>char list\<close>, one \<open>char\<close> per code unit, so the model covers the
  strings whose code units are below 256 (Latin-1), which includes the default messages.
\<close>

subsection \<open>Strings and numbers as JavaScript prints them\<close>

definition digit_char :: "nat \<Rightarrow> char" where
  "digit_char d = ''0123456789'' ! d"

text \<open>Number to string conversion of a non-negative integer (\<^verbatim>\<open>data.length + " "\<close>).\<close>

fun decimal_of_nat :: "nat \<Rightarrow> string" where
  "decimal_of_nat n =
     (if 10 \<le> n then decimal_of_nat (n div 10) @ [digit_char (n mod 10)] else [digit_char n])"

declare decimal_of_nat.simps [simp del]

text \<open>The same for an integer that may be negative (the default \<^verbatim>\<open>-1\<close>).\<close>

definition decimal_of_int :: "int \<Rightarrow> string" where
  "decimal_of_int i =
     (if 0 \<le> i then decimal_of_nat (nat i) else CHR ''-'' # decimal_of_nat (nat (- i)))"

text \<open>
  \<^verbatim>\<open>String.prototype.toLowerCase\<close> on Latin-1: A..Z and the letters 0xC0..0xDE (without
  the multiplication sign 0xD7) move up by 32, every other code unit stays.
\<close>

definition upper_chars :: string where
  "upper_chars = ''ABCDEFGHIJKLMNOPQRSTUVWXYZ'' @
     [CHR 0xC0, CHR 0xC1, CHR 0xC2, CHR 0xC3, CHR 0xC4, CHR 0xC5, CHR 0xC6, CHR 0xC7,
      CHR 0xC8, CHR 0xC9, CHR 0xCA, CHR 0xCB, CHR 0xCC, CHR 0xCD, CHR 0xCE, CHR 0xCF,
      CHR 0xD0, CHR 0xD1, CHR 0xD2, CHR 0xD3, CHR 0xD4, CHR 0xD5, CHR 0xD6,
      CHR 0xD8, CHR 0xD9, CHR 0xDA, CHR 0xDB, CHR 0xDC, CHR 0xDD, CHR 0xDE]"

definition lower_chars :: string where
  "lower_chars = ''abcdefghijklmnopqrstuvwxyz'' @
     [CHR 0xE0, CHR 0xE1, CHR 0xE2, CHR 0xE3, CHR 0xE4, CHR 0xE5, CHR 0xE6, CHR 0xE7,
      CHR 0xE8, CHR 0xE9, CHR 0xEA, CHR 0xEB, CHR 0xEC, CHR 0xED, CHR 0xEE, CHR 0xEF,
      CHR 0xF0, CHR 0xF1, CHR 0xF2, CHR 0xF3, CHR 0xF4, CHR 0xF5, CHR 0xF6,
      CHR 0xF8, CHR 0xF9, CHR 0xFA, CHR 0xFB, CHR 0xFC, CHR 0xFD, CHR 0xFE]"

definition lower_char :: "char \<Rightarrow> char" where
  "lower_char c = (case map_of (zip upper_chars lower_chars) c of Some d \<Rightarrow> d | None \<Rightarrow> c)"

definition toLowerCase :: "string \<Rightarrow> string" where
  "toLowerCase s = map lower_char s"

text \<open>
  \<^verbatim>\<open>String.prototype.trim\<close>: white space and line terminators are stripped from both
  ends. Below 256 these are TAB, LF, VT, FF, CR, SPACE and NBSP.
\<close>

definition is_space :: "char \<Rightarrow> bool" where
  "is_space c = List.member [CHR 0x09, CHR 0x0A, CHR 0x0B, CHR 0x0C, CHR 0x0D, CHR 0x20, CHR 0xA0] c"

definition trim :: "string \<Rightarrow> string" where
  "trim s = rev (dropWhile is_space (rev (dropWhile is_space s)))"

text \<open>\<^verbatim>\<open>String.prototype.includes\<close>: the needle occurs as a contiguous substring.\<close>

fun startsWith :: "string \<Rightarrow> string \<Rightarrow> bool" where
  "startsWith s [] = True"
| "startsWith [] (y # ys) = False"
| "startsWith (x # xs) (y # ys) = (x = y \<and> startsWith xs ys)"

fun includes_str :: "string \<Rightarrow> string \<Rightarrow> bool" where
  "includes_str [] needle = startsWith [] needle"
| "includes_str (x # xs) needle = (startsWith (x # xs) needle \<or> includes_str xs needle)"

subsection \<open>Values of a processed record\<close>

text \<open>
  The records \<^verbatim>\<open>processData\<close> returns are objects with the optional properties
  \<^verbatim>\<open>value\<close>, \<^verbatim>\<open>text\<close> and \<^verbatim>\<open>class\<close>, holding strings or numbers. An object is a
  map from property names to values; \<^verbatim>\<open>val in obj\<close> is \<open>obj val \<noteq> None\<close>.
\<close>

datatype jsval = Num int | Str string

fun ToString :: "jsval \<Rightarrow> string" where
  "ToString (Num i) = decimal_of_int i"
| "ToString (Str s) = s"

type_synonym jsobject = "string \<rightharpoonup> jsval"

definition getValueFromObject :: "('k \<rightharpoonup> 'v) \<Rightarrow> 'k \<Rightarrow> 'v \<Rightarrow> 'v" where
  "getValueFromObject obj val def = (case obj val of Some v \<Rightarrow> v | None \<Rightarrow> def)"

subsection \<open>The document: options, rows, the search bar and its status line\<close>

text \<open>An \<^verbatim>\<open>HTMLOptionElement\<close> of the bound select element.\<close>

record option_el =
  opt_value :: string
  opt_textContent :: string
  opt_className :: string
  opt_selected :: bool

text \<open>
  A row of the dropdown list: an \<^verbatim>\<open>li\<close> element that \<^verbatim>\<open>querySelectorAll('li')\<close>
  finds in the list. The record keeps what the code reads and writes of it: the id and
  the text content of its first child (the anchor), the row's \<^verbatim>\<open>style.display\<close> and
  the state of its checkbox.
\<close>

record li_el =
  a_id :: string
  a_textContent :: string
  li_display :: string
  checkbox_checked :: bool

text \<open>
  The rows come into being when markup is assigned to \<^verbatim>\<open>innerHTML\<close>. What the
  browser's HTML parser makes of a markup string is not code of this repository, so it
  is a parameter of the model: \<open>list_innerHTML h markup\<close> are the rows found in the list
  after \<^verbatim>\<open>list.innerHTML = markup\<close>, and \<open>item_innerHTML h markup\<close> are the rows
  found at a new \<^verbatim>\<open>li\<close> of class \<^verbatim>\<open>parcheminOpt\<close> after
  \<^verbatim>\<open>newLine.innerHTML = markup\<close>: that element, and any \<^verbatim>\<open>li\<close> the markup puts
  inside it. Nothing is assumed of \<open>h\<close> but what a theorem states.
\<close>

record host =
  list_innerHTML :: "string \<Rightarrow> li_el list"
  item_innerHTML :: "string \<Rightarrow> li_el list"

text \<open>
  What \<^verbatim>\<open>addSearch\<close> prepends to the list: the input \<^verbatim>\<open>.parcheminSearch\<close> and the
  paragraph \<^verbatim>\<open>.parcheminStatus\<close>. \<open>debounces\<close> holds, for every listener that
  \<^verbatim>\<open>addAjax\<close> registered on the input, the listener's variable \<^verbatim>\<open>debounce\<close>
  (\<open>None\<close> while undefined, else the last timer id it was assigned).
\<close>

record search_el =
  search_value :: string
  search_placeholder :: string
  status_textContent :: string
  status_display :: string
  debounces :: "nat option list"

subsection \<open>Messages\<close>

datatype lang_key =
  L_empty | L_startSearch | L_minLengthAlert | L_searching | L_noResults
  | L_error | L_result | L_results | L_searchPlaceholder | L_moreResults

type_synonym lang = "lang_key \<Rightarrow> string"

text \<open>The table written out in the \<^verbatim>\<open>Parchemin\<close> constructor and in \<^verbatim>\<open>processLangParams\<close>.\<close>

fun lang_defaults :: lang where
  "lang_defaults L_empty = ''S'' @ [CHR 0xE9] @ ''lectionnez une valeur''"
| "lang_defaults L_startSearch = ''Commencez '' @ [CHR 0xE0] @ '' taper pour lancer la recherche...''"
| "lang_defaults L_minLengthAlert = ''Veuillez taper au moins 4 caract'' @ [CHR 0xE8] @ ''res.''"
| "lang_defaults L_searching = ''Recherche...''"
| "lang_defaults L_noResults = ''Aucun r'' @ [CHR 0xE9] @ ''sultat trouv'' @ [CHR 0xE9] @ ''.''"
| "lang_defaults L_error = ''Une erreur est survenue.''"
| "lang_defaults L_result = ''r'' @ [CHR 0xE9] @ ''sultat trouv'' @ [CHR 0xE9] @ ''.''"
| "lang_defaults L_results = ''r'' @ [CHR 0xE9] @ ''sultats trouv'' @ [CHR 0xE9] @ ''s.''"
| "lang_defaults L_searchPlaceholder = ''Rechercher un '' @ [CHR 0xE9] @ ''v'' @ [CHR 0xE9] @ ''nement OL...''"
| "lang_defaults L_moreResults = ''en tout, affinez votre recherche''"

subsection \<open>Remote-search parameters\<close>

text \<open>
  The object handed to \<^verbatim>\<open>addAjax\<close>: \<^verbatim>\<open>request.url\<close>, \<^verbatim>\<open>request.type\<close> and
  \<^verbatim>\<open>processData\<close> are required, \<^verbatim>\<open>minLength\<close> and \<^verbatim>\<open>maxResults\<close> are optional.
  \<open>'r\<close> is the type of a raw record of the response.
\<close>

record 'r ajax_given =
  given_url :: string
  given_type :: string
  given_processData :: "'r list \<Rightarrow> jsobject list"
  given_minLength :: "int option"
  given_maxResults :: "int option"

record 'r ajax_params =
  request_url :: string
  request_type :: string
  processData :: "'r list \<Rightarrow> jsobject list"
  minLength :: int
  maxResults :: int

text \<open>\<^verbatim>\<open>processAjaxParams\<close>: \<^verbatim>\<open>{...defaults, ...params}\<close> with defaults 4 and 300.\<close>

definition processAjaxParams :: "'r ajax_given \<Rightarrow> 'r ajax_params" where
  "processAjaxParams params =
     \<lparr> request_url = given_url params,
       request_type = given_type params,
       processData = given_processData params,
       minLength = (case given_minLength params of Some m \<Rightarrow> m | None \<Rightarrow> 4),
       maxResults = (case given_maxResults params of Some m \<Rightarrow> m | None \<Rightarrow> 300) \<rparr>"

text \<open>\<^verbatim>\<open>processLangParams\<close>: \<^verbatim>\<open>{...defaults, ...params}\<close> over the ten message keys.\<close>

definition processLangParams :: "(lang_key \<rightharpoonup> string) \<Rightarrow> lang" where
  "processLangParams params = (\<lambda>k. case params k of Some v \<Rightarrow> v | None \<Rightarrow> lang_defaults k)"

subsection \<open>The Scroll\<close>

text \<open>
  The fields of a \<^verbatim>\<open>Scroll\<close> (\<open>sid\<close>, \<open>multiple\<close>, \<open>search\<close>, \<open>ajax\<close>, \<open>lang\<close>), the
  bound select element (\<open>node_options\<close>, \<open>node_multiple\<close>) and the wrapper's content:
  the button \<^verbatim>\<open>.parcheminButton\<close>, the rows of \<^verbatim>\<open>.parcheminList\<close> and the search
  elements once \<^verbatim>\<open>addSearch\<close> has created them. \<open>ajax = None\<close> is the source's \<^verbatim>\<open>false\<close>.
\<close>

record 'r scroll =
  sid :: nat
  node_options :: "option_el list"
  node_multiple :: bool
  button_textContent :: string
  list_items :: "li_el list"
  search_ui :: "search_el option"
  multiple :: bool
  search :: bool
  ajax :: "'r ajax_params option"
  lang :: lang

datatype error = TypeError

text \<open>
  The markup of one anchor, concatenated without escaping from the Scroll's id, an
  option's value and its text:
  \<^verbatim>\<open>'<a id="parchemin-' + id + '-' + value + '" class="dropdown-item" role="option"><input type="checkbox">' + text + '</a>'\<close>.
  The double quote is written \<open>CHR 0x22\<close>.
\<close>

definition anchor_markup :: "nat \<Rightarrow> string \<Rightarrow> string \<Rightarrow> string" where
  "anchor_markup i v t =
     ''<a id='' @ [CHR 0x22] @ ''parchemin-'' @ decimal_of_nat i @ ''-'' @ v @ [CHR 0x22]
     @ '' class='' @ [CHR 0x22] @ ''dropdown-item'' @ [CHR 0x22]
     @ '' role='' @ [CHR 0x22] @ ''option'' @ [CHR 0x22]
     @ ''><input type='' @ [CHR 0x22] @ ''checkbox'' @ [CHR 0x22] @ ''>'' @ t @ ''</a>''"

text \<open>
  \<^verbatim>\<open>getOptionsAsHTML\<close>: the string that holds, for each option in order, the anchor's
  markup between \<^verbatim>\<open><li class="parcheminOpt">\<close> and \<^verbatim>\<open></li>\<close>.
\<close>

definition options_markup :: "nat \<Rightarrow> option_el list \<Rightarrow> string" where
  "options_markup i opts =
     foldl (\<lambda>str opt. str @ ''<li class='' @ [CHR 0x22] @ ''parcheminOpt'' @ [CHR 0x22] @ ''>''
                          @ anchor_markup i (opt_value opt) (opt_textContent opt) @ ''</li>'')
       [] opts"

definition getOptionsAsHTML :: "'r scroll \<Rightarrow> string" where
  "getOptionsAsHTML s = options_markup (sid s) (node_options s)"

text \<open>
  The constructor and \<^verbatim>\<open>init\<close>: \<open>count\<close> is the static counter before the call,
  \<open>opts\<close> and \<open>mult\<close> are the select element's options and its \<^verbatim>\<open>multiple\<close>
  attribute, \<open>plang\<close> is \<^verbatim>\<open>parchemin.lang\<close>, which the Scroll copies. The rows are
  what the host makes of the markup assigned to the list's \<^verbatim>\<open>innerHTML\<close>.
\<close>

definition new_Scroll :: "host \<Rightarrow> nat \<Rightarrow> option_el list \<Rightarrow> bool \<Rightarrow> lang \<Rightarrow> 'r scroll" where
  "new_Scroll h count opts mult plang =
     (let s0 = \<lparr> sid = count + 1, node_options = opts, node_multiple = mult,
                 button_textContent = plang L_empty, list_items = [], search_ui = None,
                 multiple = False, search = False, ajax = None, lang = plang \<rparr>
      in s0\<lparr> list_items := list_innerHTML h (getOptionsAsHTML s0), multiple := mult \<rparr>)"

text \<open>
  \<^verbatim>\<open>wipeOptions\<close>: the first option is removed while one is left, then every row is
  removed.
\<close>

fun remove_while_nonempty :: "'a list \<Rightarrow> 'a list" where
  "remove_while_nonempty [] = []"
| "remove_while_nonempty (x # xs) = remove_while_nonempty xs"

definition wipeOptions :: "'r scroll \<Rightarrow> 'r scroll" where
  "wipeOptions s =
     s\<lparr> node_options := remove_while_nonempty (node_options s),
        list_items := filter (\<lambda>li. False) (list_items s) \<rparr>"

text \<open>
  \<^verbatim>\<open>addOptions\<close>: for each record in order, a new option element is appended to the
  select; then a new \<^verbatim>\<open>li\<close> is created, the anchor's markup written from the new
  element's value and text is assigned to its \<^verbatim>\<open>innerHTML\<close>, and it is appended to
  the list. The new option is not selected; that a browser selects the first option of a
  single-choice select by itself is not modelled.
\<close>

definition new_option :: "jsobject \<Rightarrow> option_el" where
  "new_option opt =
     \<lparr> opt_value = ToString (getValueFromObject opt ''value'' (Num (- 1))),
       opt_textContent = ToString (getValueFromObject opt ''text'' (Str ''Error'')),
       opt_className = ToString (getValueFromObject opt ''class'' (Str [])),
       opt_selected = False \<rparr>"

definition add_one_option :: "host \<Rightarrow> 'r scroll \<Rightarrow> jsobject \<Rightarrow> 'r scroll" where
  "add_one_option h s opt =
     (let newOpt = new_option opt
      in s\<lparr> node_options := node_options s @ [newOpt],
            list_items := list_items s @
              item_innerHTML h (anchor_markup (sid s) (opt_value newOpt) (opt_textContent newOpt)) \<rparr>)"

definition addOptions :: "host \<Rightarrow> jsobject list \<Rightarrow> 'r scroll \<Rightarrow> 'r scroll" where
  "addOptions h arr s = foldl (add_one_option h) s arr"

text \<open>\<^verbatim>\<open>updateSearchBarStatus\<close>: fails when there is no status line.\<close>

definition updateSearchBarStatus :: "string \<Rightarrow> 'r scroll \<Rightarrow> error + 'r scroll" where
  "updateSearchBarStatus msg s =
     (case search_ui s of
        None \<Rightarrow> Inl TypeError
      | Some ui \<Rightarrow> Inr (s\<lparr> search_ui := Some (ui\<lparr> status_textContent := msg \<rparr>) \<rparr>))"

text \<open>
  \<^verbatim>\<open>totalLength > this.ajax.maxResults\<close>; with \<^verbatim>\<open>this.ajax\<close> still \<^verbatim>\<open>false\<close> the
  right-hand side is undefined and the comparison is false.
\<close>

definition exceeds_maxResults :: "nat \<Rightarrow> 'r ajax_params option \<Rightarrow> bool" where
  "exceeds_maxResults totalLength a =
     (case a of None \<Rightarrow> False | Some p \<Rightarrow> maxResults p < int totalLength)"

text \<open>\<^verbatim>\<open>replaceChoices(data, totalLength)\<close>, on the host \<open>h\<close>.\<close>

definition replaceChoices :: "host \<Rightarrow> jsobject list \<Rightarrow> nat \<Rightarrow> 'r scroll \<Rightarrow> error + 'r scroll" where
  "replaceChoices h data totalLength s =
     (let s1 = addOptions h data (wipeOptions s)
      in if length data = 0 then updateSearchBarStatus (lang s1 L_noResults) s1
         else if length data = 1 then
           updateSearchBarStatus (decimal_of_nat (length data) @ '' '' @ lang s1 L_result) s1
         else
           updateSearchBarStatus
             (decimal_of_nat (length data) @ '' '' @ lang s1 L_results @
              (if exceeds_maxResults totalLength (ajax s1)
               then '' ('' @ decimal_of_nat totalLength @ '' '' @ lang s1 L_moreResults @ '')''
               else [])) s1)"

text \<open>\<^verbatim>\<open>drawSelectedOptions\<close>: the labels of the selected options, joined by a comma.\<close>

definition drawSelectedOptions :: "'r scroll \<Rightarrow> 'r scroll" where
  "drawSelectedOptions s =
     (let options = filter opt_selected (node_options s);
          str = (if length options = 0 then lang s L_empty
                 else (let joined = foldl (\<lambda>str op. str @ opt_textContent op @ '', '') [] options
                       in take (length joined - 2) joined))
      in s\<lparr> button_textContent := str \<rparr>)"

text \<open>\<^verbatim>\<open>setLang(params)\<close>.\<close>

definition setLang :: "(lang_key \<rightharpoonup> string) \<Rightarrow> 'r scroll \<Rightarrow> error + 'r scroll" where
  "setLang params s =
     (let s1 = s\<lparr> lang := processLangParams params \<rparr>;
          s2 = s1\<lparr> button_textContent := lang s1 L_empty \<rparr>
      in if search s2 then
           (case search_ui s2 of
              None \<Rightarrow> Inl TypeError
            | Some ui \<Rightarrow>
                Inr (s2\<lparr> search_ui := Some (ui\<lparr> search_placeholder := lang s2 L_searchPlaceholder,
                                                 status_textContent := lang s2 L_startSearch \<rparr>) \<rparr>))
         else Inr s2)"

text \<open>
  \<^verbatim>\<open>addSearch\<close>: a new input and a new status line are put in front of the list, so
  they are the elements every later \<^verbatim>\<open>querySelector\<close> finds; the input has the one
  listener of \<^verbatim>\<open>addSearchListeners\<close> and none of \<^verbatim>\<open>addAjax\<close> yet. The elements
  of an earlier call stay in the document, out of reach of every method; typing into
  them is not modelled.
\<close>

definition addSearch :: "'r scroll \<Rightarrow> 'r scroll" where
  "addSearch s =
     s\<lparr> search_ui := Some \<lparr> search_value = [],
                            search_placeholder = lang s L_searchPlaceholder,
                            status_textContent = lang s L_startSearch,
                            status_display = ''none'',
                            debounces = [] \<rparr>,
        search := True \<rparr>"

text \<open>
  \<^verbatim>\<open>addAjax(params)\<close>: the parameters are stored first; then a listener with a fresh
  \<^verbatim>\<open>debounce\<close> variable is registered on the search bar, which fails when there is none.
\<close>

definition addAjax :: "'r ajax_given \<Rightarrow> 'r scroll \<Rightarrow> error + 'r scroll" where
  "addAjax params s =
     (let s1 = s\<lparr> ajax := Some (processAjaxParams params) \<rparr>
      in case search_ui s1 of
           None \<Rightarrow> Inl TypeError
         | Some ui \<Rightarrow>
             Inr (s1\<lparr> search_ui := Some (ui\<lparr> debounces := debounces ui @ [None],
                                               status_display := ''block'' \<rparr>) \<rparr>))"

subsection \<open>The input listener of the search bar\<close>

text \<open>
  Local filtering of one row: the row is shown when its label, lower-cased and trimmed,
  contains the typed value, and hidden otherwise.
\<close>

definition filter_row :: "string \<Rightarrow> li_el \<Rightarrow> li_el" where
  "filter_row val li =
     (let title = trim (toLowerCase (a_textContent li))
      in if includes_str title val then li\<lparr> li_display := [] \<rparr>
         else li\<lparr> li_display := ''none'' \<rparr>)"

text \<open>
  The listener registered by \<^verbatim>\<open>addSearchListeners\<close>; \<open>node_value\<close> is the search
  bar's value when the event is handled.
\<close>

definition search_input_listener :: "string \<Rightarrow> 'r scroll \<Rightarrow> error + 'r scroll" where
  "search_input_listener node_value s =
     (let val = trim (toLowerCase node_value)
      in case ajax s of
           Some a \<Rightarrow>
             if length val < 4 then updateSearchBarStatus (lang s L_minLengthAlert) (wipeOptions s)
             else updateSearchBarStatus (lang s L_searching) s
         | None \<Rightarrow> Inr (s\<lparr> list_items := map (filter_row val) (list_items s) \<rparr>))"

subsection \<open>Settling a request\<close>


text \<open>\<^verbatim>\<open>parsed.slice(0, 300)\<close>, the argument of \<^verbatim>\<open>params.processData\<close>.\<close>

definition handed_to_processData :: "'r list \<Rightarrow> 'r list" where
  "handed_to_processData parsed = take 300 parsed"

text \<open>The second \<^verbatim>\<open>then\<close> handler of \<^verbatim>\<open>fetchData\<close>, after \<^verbatim>\<open>JSON.parse\<close>.\<close>

definition fetch_then :: "host \<Rightarrow> 'r ajax_params \<Rightarrow> 'r list \<Rightarrow> 'r scroll \<Rightarrow> error + 'r scroll" where
  "fetch_then h params parsed s =
     (let processed = processData params (handed_to_processData parsed)
      in replaceChoices h processed (length parsed) s)"



subsection \<open>Clicking a row\<close>

text \<open>\<^verbatim>\<open>String.prototype.split\<close> with a one-character separator.\<close>

fun split_on :: "char \<Rightarrow> string \<Rightarrow> string list" where
  "split_on sep [] = [[]]"
| "split_on sep (c # cs) =
     (if c = sep then [] # split_on sep cs
      else (case split_on sep cs of [] \<Rightarrow> [[c]] | p # ps \<Rightarrow> (c # p) # ps))"

text \<open>The first element that satisfies \<open>P\<close> is replaced by its image under \<open>f\<close>.\<close>

fun update_first :: "('a \<Rightarrow> bool) \<Rightarrow> ('a \<Rightarrow> 'a) \<Rightarrow> 'a list \<Rightarrow> 'a list" where
  "update_first P f [] = []"
| "update_first P f (x # xs) = (if P x then f x # xs else x # update_first P f xs)"

text \<open>
  Assigning \<^verbatim>\<open>selector.value\<close>: the first option with that value becomes the selected
  one, every other option is deselected.
\<close>

fun select_value :: "string \<Rightarrow> option_el list \<Rightarrow> option_el list" where
  "select_value v [] = []"
| "select_value v (x # xs) =
     (if opt_value x = v then x\<lparr> opt_selected := True \<rparr> # map (\<lambda>y. y\<lparr> opt_selected := False \<rparr>) xs
      else x\<lparr> opt_selected := False \<rparr> # select_value v xs)"

text \<open>
  The click listener that \<^verbatim>\<open>addChoicesListeners\<close> puts on the list's \<^verbatim>\<open>li\<close>
  children, for the row at index \<open>i\<close> of the list. A row whose id names no option of
  the select makes \<^verbatim>\<open>choice\<close> undefined, and the listener fails. A click on an
  \<^verbatim>\<open>li\<close> that markup has nested in another is not modelled.
\<close>

definition click_row :: "nat \<Rightarrow> 'r scroll \<Rightarrow> error + 'r scroll" where
  "click_row i s =
     (if length (list_items s) \<le> i then Inr s
      else
        (let li = list_items s ! i;
             parts = split_on CHR ''-'' (a_id li)
         in if length parts \<le> 2 then Inl TypeError
            else
              (let v = parts ! 2
               in case find (\<lambda>x. opt_value x = v) (node_options s) of
                    None \<Rightarrow> Inl TypeError
                  | Some choice \<Rightarrow>
                      if multiple s then
                        Inr (drawSelectedOptions
                              (s\<lparr> node_options :=
                                     update_first (\<lambda>x. opt_value x = v)
                                       (\<lambda>x. x\<lparr> opt_selected := \<not> opt_selected x \<rparr>) (node_options s),
                                  list_items :=
                                     (list_items s)[i := li\<lparr> checkbox_checked := \<not> opt_selected choice \<rparr>] \<rparr>))
                      else
                        Inr (s\<lparr> node_options := select_value (opt_value choice) (node_options s),
                               button_textContent := opt_textContent choice \<rparr>))))"

subsection \<open>The event loop: timers and network calls\<close>

text \<open>A call of \<^verbatim>\<open>fetch\<close>: the parameters in force and the search string of the body.\<close>

record 'r fetch_call =
  fetch_params :: "'r ajax_params"
  fetch_search :: string

text \<open>
  The page around one Scroll: the clock in milliseconds, the pending timeouts as pairs
  of timer id and due time in the order they were set, the next timer id, and the network
  calls issued so far.
\<close>

record 'r world =
  widget :: "'r scroll"
  now :: nat
  timers :: "(nat \<times> nat) list"
  next_timer_id :: nat
  fetch_calls :: "'r fetch_call list"

definition clearTimeout :: "nat option \<Rightarrow> 'r world \<Rightarrow> 'r world" where
  "clearTimeout handle w =
     (case handle of
        None \<Rightarrow> w
      | Some i \<Rightarrow> w\<lparr> timers := filter (\<lambda>tm. fst tm \<noteq> i) (timers w) \<rparr>)"

definition setTimeout :: "nat \<Rightarrow> 'r world \<Rightarrow> nat \<times> 'r world" where
  "setTimeout delay w =
     (next_timer_id w,
      w\<lparr> timers := timers w @ [(next_timer_id w, now w + delay)],
         next_timer_id := next_timer_id w + 1 \<rparr>)"

text \<open>
  One listener registered by \<^verbatim>\<open>addAjax\<close> handling an input event: from the value of
  its variable \<^verbatim>\<open>debounce\<close> to the new value.
\<close>

definition ajax_input_listener :: "nat option \<Rightarrow> 'r world \<Rightarrow> nat option \<times> 'r world" where
  "ajax_input_listener debounce w =
     (let w1 = clearTimeout debounce w;
          (i, w2) = setTimeout 1000 w1
      in (Some i, w2))"

fun ajax_input_listeners :: "nat option list \<Rightarrow> 'r world \<Rightarrow> nat option list \<times> 'r world" where
  "ajax_input_listeners [] w = ([], w)"
| "ajax_input_listeners (d # ds) w =
     (let (d', w1) = ajax_input_listener d w;
          (ds', w2) = ajax_input_listeners ds w1
      in (d' # ds', w2))"

text \<open>\<^verbatim>\<open>fetchData(params, inputData)\<close> up to the call of \<^verbatim>\<open>fetch\<close>.\<close>

definition fetchData :: "'r ajax_params \<Rightarrow> string \<Rightarrow> 'r world \<Rightarrow> 'r world" where
  "fetchData params inputData w =
     w\<lparr> fetch_calls := fetch_calls w @ [\<lparr> fetch_params = params, fetch_search = inputData \<rparr>] \<rparr>"

text \<open>
  The function a debounce timer runs: it reads the search bar's value when it fires.
\<close>

definition debounce_callback :: "'r world \<Rightarrow> 'r world" where
  "debounce_callback w =
     (case search_ui (widget w) of
        None \<Rightarrow> w
      | Some ui \<Rightarrow>
          (let val = trim (toLowerCase (search_value ui))
           in case ajax (widget w) of
                None \<Rightarrow> w
              | Some a \<Rightarrow> if minLength a \<le> int (length val) then fetchData a val w else w))"

text \<open>
  The user changes the search bar's value to \<open>v\<close> and the input event is dispatched:
  first the listener of \<^verbatim>\<open>addSearchListeners\<close>, then those of \<^verbatim>\<open>addAjax\<close> in the
  order they were registered. Without a search bar there is nothing to type into. The
  first listener cannot throw here, since the status line exists whenever the search bar
  does; the dispatch would go on to the other listeners if it did.
\<close>

definition input_event :: "string \<Rightarrow> 'r world \<Rightarrow> 'r world" where
  "input_event v w =
     (case search_ui (widget w) of
        None \<Rightarrow> w
      | Some ui \<Rightarrow>
          (let s1 = (widget w)\<lparr> search_ui := Some (ui\<lparr> search_value := v \<rparr>) \<rparr>;
               s2 = (case search_input_listener v s1 of Inr s' \<Rightarrow> s' | Inl e \<Rightarrow> s1)
           in case search_ui s2 of
                None \<Rightarrow> w\<lparr> widget := s2 \<rparr>
              | Some ui2 \<Rightarrow>
                  (let (ds, w1) = ajax_input_listeners (debounces ui2) (w\<lparr> widget := s2 \<rparr>)
                   in w1\<lparr> widget := (widget w1)\<lparr> search_ui := Some (ui2\<lparr> debounces := ds \<rparr>) \<rparr> \<rparr>)))"

text \<open>
  Time passes until \<open>t\<close>: the timers due by then fire in the order they were set
  (every delay is 1000, so this is the order of their due times) and are gone. A timer
  fires when it is due, before any event of the same or a later time.
\<close>

definition advance_to :: "nat \<Rightarrow> 'r world \<Rightarrow> 'r world" where
  "advance_to t w =
     (if t < now w then w
      else
        (let due = filter (\<lambda>tm. snd tm \<le> t) (timers w);
             w1 = w\<lparr> timers := filter (\<lambda>tm. t < snd tm) (timers w) \<rparr>
         in (foldl (\<lambda>w' tm. debounce_callback (w'\<lparr> now := snd tm \<rparr>)) w1 due)\<lparr> now := t \<rparr>))"

text \<open>A keystroke at time \<open>t\<close> that leaves \<open>v\<close> in the search bar, and a sequence of them.\<close>

definition keystroke :: "'r world \<Rightarrow> nat \<times> string \<Rightarrow> 'r world" where
  "keystroke w k = input_event (snd k) (advance_to (fst k) w)"

definition keystrokes :: "(nat \<times> string) list \<Rightarrow> 'r world \<Rightarrow> 'r world" where
  "keystrokes ks w = foldl keystroke w ks"

subsection \<open>Properties stated about the Scroll\<close>

text \<open>
  The row an option's markup is written for: its anchor's id is \<^verbatim>\<open>'parchemin-'\<close>, the
  Scroll's id, a hyphen and the option's value, its anchor's text is the option's text,
  it is displayed and its checkbox is not checked.
\<close>

definition verbatim_row :: "nat \<Rightarrow> option_el \<Rightarrow> li_el" where
  "verbatim_row i opt =
     \<lparr> a_id = ''parchemin-'' @ decimal_of_nat i @ ''-'' @ opt_value opt,
       a_textContent = opt_textContent opt,
       li_display = [],
       checkbox_checked = False \<rparr>"

text \<open>
  The host reads the markup of these options back as exactly their rows: the list's
  markup as one row per option in order, and the markup of one item as its one row.
\<close>

definition reads_list_verbatim :: "host \<Rightarrow> nat \<Rightarrow> option_el list \<Rightarrow> bool" where
  "reads_list_verbatim h i opts = (list_innerHTML h (options_markup i opts) = map (verbatim_row i) opts)"

definition reads_item_verbatim :: "host \<Rightarrow> nat \<Rightarrow> option_el \<Rightarrow> bool" where
  "reads_item_verbatim h i opt =
     (item_innerHTML h (anchor_markup i (opt_value opt) (opt_textContent opt)) = [verbatim_row i opt])"

text \<open>
  The select's options and the rendered rows hold the same options in the same order:
  row by row, the anchor's id is the one written for the option's value and the anchor's
  text is the option's text.
\<close>

definition in_sync :: "'r scroll \<Rightarrow> bool" where
  "in_sync s =
     (map (\<lambda>li. (a_id li, a_textContent li)) (list_items s) =
      map (\<lambda>opt. (''parchemin-'' @ decimal_of_nat (sid s) @ ''-'' @ opt_value opt, opt_textContent opt))
        (node_options s))"

text \<open>
  A burst of keystrokes: none is earlier than its predecessor, and each comes less than
  the debounce delay of 1000 after its predecessor.
\<close>

fun burst :: "(nat \<times> string) list \<Rightarrow> bool" where
  "burst [] = True"
| "burst [k] = True"
| "burst (k # k' # ks) = (fst k \<le> fst k' \<and> fst k' < fst k + 1000 \<and> burst (k' # ks))"

text \<open>One method after another, stopping at the first exception.\<close>

definition and_then :: "error + 'a \<Rightarrow> ('a \<Rightarrow> error + 'b) \<Rightarrow> error + 'b" where
  "and_then r f = (case r of Inl e \<Rightarrow> Inl e | Inr x \<Rightarrow> f x)"

subsection \<open>Example pages\<close>

text \<open>
  A multiple select with the options Lyon and Paris, made a Scroll with the default
  messages on the host of the examples, then given a search bar, then remote search with the given
  \<^verbatim>\<open>minLength\<close> and \<^verbatim>\<open>maxResults\<close>. The raw records of the example are names, and
  \<^verbatim>\<open>processData\<close> turns each name into a record with that value and text.
\<close>

definition example_options :: "option_el list" where
  "example_options =
     [\<lparr> opt_value = ''1'', opt_textContent = ''Lyon'', opt_className = [], opt_selected = False \<rparr>,
      \<lparr> opt_value = ''2'', opt_textContent = ''Paris'', opt_className = [], opt_selected = False \<rparr>]"

text \<open>
  The record a caller's \<^verbatim>\<open>processData\<close> returns for an entry labelled
  \<open>Terms&notes\<close>, and the row an HTML parser reads from the markup written for it:
  in text, \<^verbatim>\<open>&not\<close> is a character reference for the not sign U+00AC also without a
  semicolon, so the anchor's text is \<open>Terms\<close>, the not sign and \<open>es\<close>.
\<close>

definition notes_record :: jsobject where
  "notes_record = [''value'' \<mapsto> Str ''7'', ''text'' \<mapsto> Str ''Terms&notes'']"

definition notes_row :: li_el where
  "notes_row =
     \<lparr> a_id = ''parchemin-1-7'', a_textContent = ''Terms'' @ [CHR 0xAC] @ ''es'',
       li_display = [], checkbox_checked = False \<rparr>"

text \<open>
  The host of the examples. Of its readings two are used: the list markup of the
  options Lyon and Paris on the Scroll with id 1 is read as their two rows, and the item
  markup of \<open>notes_record\<close> on that Scroll is read as \<open>notes_row\<close>.
\<close>

definition example_host :: host where
  "example_host =
     \<lparr> list_innerHTML =
         (\<lambda>markup. if markup = options_markup 1 example_options
                   then map (verbatim_row 1) example_options else []),
       item_innerHTML =
         (\<lambda>markup. if markup = anchor_markup 1 ''7'' ''Terms&notes'' then [notes_row] else []) \<rparr>"

definition example_scroll :: "string scroll" where
  "example_scroll = new_Scroll example_host 0 example_options True lang_defaults"

definition example_search :: "string scroll" where
  "example_search = addSearch example_scroll"

definition example_given :: "int option \<Rightarrow> int option \<Rightarrow> string ajax_given" where
  "example_given minLen maxRes =
     \<lparr> given_url = ''/users/search'', given_type = ''POST'',
       given_processData = map (\<lambda>name. [''value'' \<mapsto> Str name, ''text'' \<mapsto> Str name]),
       given_minLength = minLen, given_maxResults = maxRes \<rparr>"

definition example_remote :: "int option \<Rightarrow> int option \<Rightarrow> error + string scroll" where
  "example_remote minLen maxRes = addAjax (example_given minLen maxRes) example_search"

definition page_of :: "'r scroll \<Rightarrow> 'r world" where
  "page_of s = \<lparr> widget = s, now = 0, timers = [], next_timer_id = 1, fetch_calls = [] \<rparr>"

definition example_remote_scroll :: "int option \<Rightarrow> int option \<Rightarrow> string scroll" where
  "example_remote_scroll minLen maxRes =
     (case example_remote minLen maxRes of Inr s \<Rightarrow> s | Inl e \<Rightarrow> example_search)"

text \<open>The same Scroll after a second call of \<^verbatim>\<open>addAjax\<close> with the default thresholds.\<close>

definition example_remote_twice :: "string scroll" where
  "example_remote_twice =
     (case and_then (example_remote None None) (addAjax (example_given None None)) of
        Inr s \<Rightarrow> s
      | Inl e \<Rightarrow> example_search)"

definition example_page :: "int option \<Rightarrow> int option \<Rightarrow> string world" where
  "example_page minLen maxRes = page_of (example_remote_scroll minLen maxRes)"

section \<open>Verified properties\<close>

subsection \<open>Auxiliary facts\<close>

lemma remove_while_nonempty_Nil: "remove_while_nonempty xs = []"
  by (induction xs) simp_all

lemma wipeOptions_eq: "wipeOptions s = s\<lparr> node_options := [], list_items := [] \<rparr>"
  by (simp add: wipeOptions_def remove_while_nonempty_Nil)

lemma addOptions_eq:
  "addOptions h arr s =
     s\<lparr> node_options := node_options s @ map new_option arr,
        list_items := list_items s @
          concat (map (\<lambda>opt. item_innerHTML h
              (anchor_markup (sid s) (opt_value (new_option opt)) (opt_textContent (new_option opt)))) arr) \<rparr>"
  unfolding addOptions_def
  by (induction arr arbitrary: s) (simp_all add: add_one_option_def Let_def)

lemma item_rows_verbatim:
  assumes "\<forall>opt \<in> set arr. reads_item_verbatim h i (new_option opt)"
  shows "concat (map (\<lambda>opt. item_innerHTML h
              (anchor_markup i (opt_value (new_option opt)) (opt_textContent (new_option opt)))) arr)
         = map (\<lambda>opt. verbatim_row i (new_option opt)) arr"
  using assms by (induction arr) (simp_all add: reads_item_verbatim_def)

lemma decimal_of_int_minus_one: "decimal_of_int (- 1) = ''-1''"
  by (simp add: decimal_of_int_def decimal_of_nat.simps digit_char_def)


lemma example_search_ui:
  "search_ui example_search =
     Some \<lparr> search_value = [], search_placeholder = lang_defaults L_searchPlaceholder,
            status_textContent = lang_defaults L_startSearch, status_display = ''none'',
            debounces = [] \<rparr>"
  by (simp add: example_search_def addSearch_def example_scroll_def new_Scroll_def Let_def)

lemma example_search_lang: "lang example_search = lang_defaults"
  by (simp add: example_search_def addSearch_def example_scroll_def new_Scroll_def Let_def)

lemma example_remote_scroll_eq:
  "example_remote_scroll m x =
     example_search\<lparr> ajax := Some (processAjaxParams (example_given m x)),
        search_ui := Some \<lparr> search_value = [], search_placeholder = lang_defaults L_searchPlaceholder,
            status_textContent = lang_defaults L_startSearch, status_display = ''block'',
            debounces = [None] \<rparr> \<rparr>"
  by (simp add: example_remote_scroll_def example_remote_def addAjax_def Let_def example_search_ui)

lemma example_search_eq:
  "example_search =
     \<lparr> sid = 1, node_options = example_options, node_multiple = True,
       button_textContent = lang_defaults L_empty,
       list_items =
         [\<lparr> a_id = ''parchemin-1-1'', a_textContent = ''Lyon'', li_display = [], checkbox_checked = False \<rparr>,
          \<lparr> a_id = ''parchemin-1-2'', a_textContent = ''Paris'', li_display = [], checkbox_checked = False \<rparr>],
       search_ui = Some \<lparr> search_value = [], search_placeholder = lang_defaults L_searchPlaceholder,
            status_textContent = lang_defaults L_startSearch, status_display = ''none'',
            debounces = [] \<rparr>,
       multiple = True, search = True, ajax = None, lang = lang_defaults \<rparr>"
  by (simp add: example_search_def addSearch_def example_scroll_def new_Scroll_def Let_def
      getOptionsAsHTML_def example_host_def)
     (simp add: verbatim_row_def example_options_def decimal_of_nat.simps digit_char_def)

lemma example_remote_twice_eq:
  "example_remote_twice =
     example_search\<lparr> ajax := Some (processAjaxParams (example_given None None)),
        search_ui := Some \<lparr> search_value = [], search_placeholder = lang_defaults L_searchPlaceholder,
            status_textContent = lang_defaults L_startSearch, status_display = ''block'',
            debounces = [None, None] \<rparr> \<rparr>"
  by (simp add: example_remote_twice_def example_remote_def addAjax_def Let_def example_search_ui
      and_then_def)

lemma example_page_eq:
  "example_page m x =
     \<lparr> widget = example_remote_scroll m x, now = 0, timers = [], next_timer_id = 1, fetch_calls = [] \<rparr>"
  by (simp add: example_page_def page_of_def)

lemmas string_evals =
  trim_def toLowerCase_def lower_char_def upper_chars_def lower_chars_def is_space_def

lemmas event_loop_evals =
  keystrokes_def keystroke_def advance_to_def input_event_def search_input_listener_def
  debounce_callback_def fetchData_def ajax_input_listener_def clearTimeout_def setTimeout_def
  updateSearchBarStatus_def wipeOptions_eq Let_def split_def

lemma in_sync_new_Scroll:
  assumes "reads_list_verbatim h (count + 1) opts"
  shows "in_sync (new_Scroll h count opts mult plang)"
  using assms
  by (simp add: in_sync_def new_Scroll_def Let_def getOptionsAsHTML_def reads_list_verbatim_def
      verbatim_row_def comp_def)

lemma filter_row_identity:
  "a_id (filter_row val li) = a_id li" "a_textContent (filter_row val li) = a_textContent li"
  by (simp_all add: filter_row_def Let_def)

lemma filter_row_idem: "filter_row val (filter_row val li) = filter_row val li"
  by (simp add: filter_row_def Let_def)

subsection \<open>Defaults of a processed record\<close>

text \<open>
  Claim C10. For every record returned by the caller's \<^verbatim>\<open>processData\<close>,
  \<^verbatim>\<open>addOptions\<close> appends one option per record, on every host, and fills in fixed defaults for missing
  fields: a missing \<^verbatim>\<open>value\<close> becomes -1 (the option's value attribute reads
  \<open>''-1''\<close>), a missing \<^verbatim>\<open>text\<close> becomes \<open>''Error''\<close>, a missing \<^verbatim>\<open>class\<close> becomes
  the empty string; a field that is present is used as it is.
\<close>

theorem addOptions_defaults:
  "node_options (addOptions h arr s) = node_options s @ map new_option arr
   \<and> getValueFromObject opt ''value'' (Num (- 1)) = (case opt ''value'' of None \<Rightarrow> Num (- 1) | Some v \<Rightarrow> v)
   \<and> getValueFromObject opt ''text'' (Str ''Error'') = (case opt ''text'' of None \<Rightarrow> Str ''Error'' | Some v \<Rightarrow> v)
   \<and> getValueFromObject opt ''class'' (Str []) = (case opt ''class'' of None \<Rightarrow> Str [] | Some v \<Rightarrow> v)
   \<and> opt_value (new_option opt) = (case opt ''value'' of None \<Rightarrow> ''-1'' | Some v \<Rightarrow> ToString v)
   \<and> opt_textContent (new_option opt) = (case opt ''text'' of None \<Rightarrow> ''Error'' | Some v \<Rightarrow> ToString v)
   \<and> opt_className (new_option opt) = (case opt ''class'' of None \<Rightarrow> [] | Some v \<Rightarrow> ToString v)
   \<and> ToString (Str x) = x"
  by (simp add: addOptions_eq new_option_def getValueFromObject_def decimal_of_int_minus_one
      split: option.splits)

subsection \<open>The status message after a replacement\<close>



lemma map_update_first:
  assumes "\<And>x. g (f x) = g x"
  shows "map g (update_first P f xs) = map g xs"
  by (induction xs) (simp_all add: assms)

lemma map_select_value:
  assumes "\<And>x b. g (x\<lparr> opt_selected := b \<rparr>) = g x"
  shows "map g (select_value v xs) = map g xs"
  by (induction xs) (simp_all add: assms comp_def)

lemma map_update_same:
  assumes "i < length xs" and "h y = h (xs ! i)"
  shows "map h (xs[i := y]) = map h xs"
  using assms by (simp add: map_update list_update_same_conv)

lemma in_sync_click_row:
  assumes "in_sync s"
  shows "case click_row i s of Inr s' \<Rightarrow> in_sync s' | Inl e \<Rightarrow> True"
proof (cases "i < length (list_items s)")
  case False
  then show ?thesis using assms by (simp add: click_row_def)
next
  case True
  then show ?thesis
    using assms
    by (auto simp add: click_row_def Let_def in_sync_def drawSelectedOptions_def
        map_update_first map_select_value map_update_same split: option.splits)
qed

lemma in_sync_config:
  assumes "in_sync s"
  shows "in_sync (addSearch s)"
    and "case addAjax params s of Inr s' \<Rightarrow> in_sync s' | Inl e \<Rightarrow> search_ui s = None"
    and "case setLang lp s of Inr s' \<Rightarrow> in_sync s' | Inl e \<Rightarrow> search_ui s = None"
  using assms
  by (auto simp add: in_sync_def addSearch_def addAjax_def setLang_def Let_def
      split: option.splits)

subsection \<open>The select and the rendered rows\<close>

text \<open>
  Where the host reads the written markup back as exactly the options' rows, the select
  and the rows are in step after construction, and \<^verbatim>\<open>addOptions\<close> and
  \<^verbatim>\<open>replaceChoices\<close> keep them so. The methods that write no markup keep them in step
  on every host: \<^verbatim>\<open>wipeOptions\<close>, the input listener in both branches, a click on a
  row, \<^verbatim>\<open>addSearch\<close>, \<^verbatim>\<open>addAjax\<close> and \<^verbatim>\<open>setLang\<close>.
\<close>

lemma in_sync_where_markup_reads_verbatim:
  "(reads_list_verbatim h (count + 1) opts \<longrightarrow> in_sync (new_Scroll h count opts mult plang))
   \<and> in_sync (wipeOptions s)
   \<and> (in_sync s \<longrightarrow> (\<forall>opt \<in> set arr. reads_item_verbatim h (sid s) (new_option opt))
         \<longrightarrow> in_sync (addOptions h arr s))
   \<and> (in_sync s \<longrightarrow> ajax s = None \<longrightarrow> (\<exists>s'. search_input_listener v s = Inr s' \<and> in_sync s'))
   \<and> (in_sync s \<longrightarrow> (case search_input_listener v s of Inr s' \<Rightarrow> in_sync s' | Inl e \<Rightarrow> search_ui s = None))
   \<and> ((\<forall>opt \<in> set data. reads_item_verbatim h (sid s) (new_option opt))
         \<longrightarrow> (case replaceChoices h data t s of Inr s' \<Rightarrow> in_sync s' | Inl e \<Rightarrow> search_ui s = None))
   \<and> (in_sync s \<longrightarrow> length (list_items s) = length (node_options s))
   \<and> (in_sync s \<longrightarrow> (case click_row i s of Inr s' \<Rightarrow> in_sync s' | Inl e \<Rightarrow> True))
   \<and> (in_sync s \<longrightarrow> in_sync (addSearch s))
   \<and> (in_sync s \<longrightarrow> (case addAjax params s of Inr s' \<Rightarrow> in_sync s' | Inl e \<Rightarrow> search_ui s = None))
   \<and> (in_sync s \<longrightarrow> (case setLang overrides s of Inr s' \<Rightarrow> in_sync s' | Inl e \<Rightarrow> search_ui s = None))"
proof (intro conjI impI)
  show "case click_row i s of Inr s' \<Rightarrow> in_sync s' | Inl e \<Rightarrow> True" if "in_sync s"
    using that by (rule in_sync_click_row)
  show "in_sync (addSearch s)" if "in_sync s"
    using that by (rule in_sync_config)
  show "case addAjax params s of Inr s' \<Rightarrow> in_sync s' | Inl e \<Rightarrow> search_ui s = None" if "in_sync s"
    using that by (rule in_sync_config)
  show "case setLang overrides s of Inr s' \<Rightarrow> in_sync s' | Inl e \<Rightarrow> search_ui s = None" if "in_sync s"
    using that by (rule in_sync_config)
  show "in_sync (new_Scroll h count opts mult plang)" if "reads_list_verbatim h (count + 1) opts"
    using that by (rule in_sync_new_Scroll)
  show "in_sync (wipeOptions s)" by (simp add: in_sync_def wipeOptions_eq)
  show "in_sync (addOptions h arr s)"
    if "in_sync s" "\<forall>opt \<in> set arr. reads_item_verbatim h (sid s) (new_option opt)"
    using that by (simp add: in_sync_def addOptions_eq item_rows_verbatim verbatim_row_def comp_def)
  show "\<exists>s'. search_input_listener v s = Inr s' \<and> in_sync s'" if "in_sync s" "ajax s = None"
    using that by (simp add: search_input_listener_def Let_def in_sync_def comp_def filter_row_identity)
  show "case search_input_listener v s of Inr s' \<Rightarrow> in_sync s' | Inl e \<Rightarrow> search_ui s = None" if "in_sync s"
    using that
    by (cases "search_ui s"; cases "ajax s")
       (simp_all add: search_input_listener_def Let_def in_sync_def comp_def filter_row_identity
          updateSearchBarStatus_def wipeOptions_eq)
  show "case replaceChoices h data t s of Inr s' \<Rightarrow> in_sync s' | Inl e \<Rightarrow> search_ui s = None"
    if "\<forall>opt \<in> set data. reads_item_verbatim h (sid s) (new_option opt)"
    using that
    by (cases "search_ui s")
       (simp_all add: replaceChoices_def Let_def in_sync_def comp_def
          updateSearchBarStatus_def wipeOptions_eq addOptions_eq item_rows_verbatim verbatim_row_def)
  show "length (list_items s) = length (node_options s)" if "in_sync s"
  proof -
    from that have "length (map (\<lambda>li. (a_id li, a_textContent li)) (list_items s)) =
      length (map (\<lambda>opt. (''parchemin-'' @ decimal_of_nat (sid s) @ ''-'' @ opt_value opt, opt_textContent opt)) (node_options s))"
      unfolding in_sync_def by (rule arg_cong)
    then show ?thesis by simp
  qed
qed

text \<open>
  After one record is added to a Scroll that is in step, the select and the rows are in
  step exactly when the host reads the record's markup as one row with the id written
  for the new option's value and with the new option's text.
\<close>

lemma in_sync_addOptions_one_iff:
  assumes "in_sync s"
  shows "in_sync (addOptions h [opt] s) =
     (map (\<lambda>li. (a_id li, a_textContent li))
        (item_innerHTML h (anchor_markup (sid s) (opt_value (new_option opt)) (opt_textContent (new_option opt))))
      = [(''parchemin-'' @ decimal_of_nat (sid s) @ ''-'' @ opt_value (new_option opt),
          opt_textContent (new_option opt))])"
  using assms by (simp add: in_sync_def addOptions_eq)

text \<open>
  Claim C6 at a failing input. \<^verbatim>\<open>processData\<close> returns a record whose text is
  \<open>Terms&notes\<close>. \<^verbatim>\<open>addOptions\<close> gives the new option that text through
  \<^verbatim>\<open>textContent\<close>, and writes the same text unescaped into the markup it assigns to the
  new row's \<^verbatim>\<open>innerHTML\<close>. On every host that reads that markup as an HTML parser
  does, as one row whose anchor's text is \<open>Terms\<close>, the not sign and \<open>es\<close>, the last
  option of the select reads \<open>Terms&notes\<close>, the last row reads otherwise, and the
  select and the rows are not in step, whatever the Scroll was before.
\<close>

theorem unescaped_label_breaks_sync:
  assumes "opt ''text'' = Some (Str ''Terms&notes'')"
    and "item_innerHTML h (anchor_markup (sid s) (opt_value (new_option opt)) ''Terms&notes'') = [r]"
    and "a_textContent r = ''Terms'' @ [CHR 0xAC] @ ''es''"
  shows "opt_textContent (last (node_options (addOptions h [opt] s))) = ''Terms&notes''
       \<and> a_textContent (last (list_items (addOptions h [opt] s))) = ''Terms'' @ [CHR 0xAC] @ ''es''
       \<and> \<not> in_sync (addOptions h [opt] s)"
proof -
  have t: "opt_textContent (new_option opt) = ''Terms&notes''"
    using assms(1) by (simp add: new_option_def getValueFromObject_def)
  have o: "node_options (addOptions h [opt] s) = node_options s @ [new_option opt]"
    and l: "list_items (addOptions h [opt] s) = list_items s @ [r]"
    and i: "sid (addOptions h [opt] s) = sid s"
    using assms(2) by (simp_all add: addOptions_eq t)
  have "\<not> in_sync (addOptions h [opt] s)"
  proof
    assume "in_sync (addOptions h [opt] s)"
    then have "map (\<lambda>li. (a_id li, a_textContent li)) (list_items s @ [r]) =
      map (\<lambda>x. (''parchemin-'' @ decimal_of_nat (sid s) @ ''-'' @ opt_value x, opt_textContent x))
        (node_options s @ [new_option opt])"
      by (simp add: in_sync_def o l i)
    then have "a_textContent r = opt_textContent (new_option opt)"
      by simp
    then show False using assms(3) t by simp
  qed
  then show ?thesis using assms(3) t by (simp add: o l)
qed

theorem unescaped_label_breaks_sync_witness:
  "notes_record ''text'' = Some (Str ''Terms&notes'')
   \<and> item_innerHTML example_host
        (anchor_markup (sid example_search) (opt_value (new_option notes_record)) ''Terms&notes'')
       = [notes_row]
   \<and> a_textContent notes_row = ''Terms'' @ [CHR 0xAC] @ ''es''
   \<and> in_sync example_search
   \<and> opt_textContent (last (node_options (addOptions example_host [notes_record] example_search)))
       = ''Terms&notes''
   \<and> a_textContent (last (list_items (addOptions example_host [notes_record] example_search)))
       = ''Terms'' @ [CHR 0xAC] @ ''es''
   \<and> \<not> in_sync (addOptions example_host [notes_record] example_search)"
proof -
  have h1: "notes_record ''text'' = Some (Str ''Terms&notes'')"
    by (simp add: notes_record_def)
  have h2: "item_innerHTML example_host
        (anchor_markup (sid example_search) (opt_value (new_option notes_record)) ''Terms&notes'')
       = [notes_row]"
    by (simp add: example_host_def example_search_eq new_option_def notes_record_def
        getValueFromObject_def)
  have h3: "a_textContent notes_row = ''Terms'' @ [CHR 0xAC] @ ''es''"
    by (simp add: notes_row_def)
  have h4: "in_sync example_search"
    by (simp add: in_sync_def example_search_eq example_options_def decimal_of_nat.simps digit_char_def)
  note r = unescaped_label_breaks_sync [OF h1 h2 h3]
  show ?thesis
    by (intro conjI) (rule h1 h2 h3 h4 r [THEN conjunct1] r [THEN conjunct2, THEN conjunct1]
        r [THEN conjunct2, THEN conjunct2])+
qed

subsection \<open>Local filtering\<close>

text \<open>
  Claim C8. Without remote parameters the input listener only shows or hides rows:
  handling the same value a second time changes nothing, the select's options are left
  as they were, the rows keep their ids and labels, and a row is shown exactly when its
  label, lower-cased and trimmed, contains the typed value, lower-cased and trimmed.
\<close>

theorem local_filter_idempotent:
  assumes "ajax s = None"
  shows "\<exists>s1. search_input_listener v s = Inr s1
          \<and> search_input_listener v s1 = Inr s1
          \<and> node_options s1 = node_options s
          \<and> map a_id (list_items s1) = map a_id (list_items s)
          \<and> map a_textContent (list_items s1) = map a_textContent (list_items s)
          \<and> map li_display (list_items s1) =
              map (\<lambda>li. if includes_str (trim (toLowerCase (a_textContent li))) (trim (toLowerCase v))
                        then [] else ''none'') (list_items s)"
  using assms
  by (simp add: search_input_listener_def Let_def comp_def filter_row_identity filter_row_idem)
     (simp add: filter_row_def Let_def)

theorem local_filter_idempotent_witness:
  "ajax example_search = None
   \<and> and_then (search_input_listener '' PAR '' example_search) (search_input_listener '' PAR '')
       = search_input_listener '' PAR '' example_search
   \<and> map_sum id (\<lambda>s1. (node_options s1, map li_display (list_items s1)))
        (search_input_listener '' PAR '' example_search)
       = Inr (example_options, [''none'', []])"
proof -
  have a: "ajax example_search = None"
    by (simp add: example_search_eq)
  have n: "node_options example_search = example_options"
    by (simp add: example_search_eq)
  have l: "map (\<lambda>li. if includes_str (trim (toLowerCase (a_textContent li))) (trim (toLowerCase '' PAR ''))
                        then [] else ''none'') (list_items example_search) = [''none'', []]"
    by (simp add: example_search_eq string_evals)
  from local_filter_idempotent [OF a, of "'' PAR ''"]
  obtain s1 where s1: "search_input_listener '' PAR '' example_search = Inr s1"
    "search_input_listener '' PAR '' s1 = Inr s1"
    "node_options s1 = node_options example_search"
    "map li_display (list_items s1) =
       map (\<lambda>li. if includes_str (trim (toLowerCase (a_textContent li))) (trim (toLowerCase '' PAR ''))
                        then [] else ''none'') (list_items example_search)"
    by blast
  from s1(3) n have o: "node_options s1 = example_options" by simp
  from s1(4) l have r: "map li_display (list_items s1) = [''none'', []]" by simp
  show ?thesis
    by (simp add: a s1(1) s1(2) o r and_then_def)
qed

subsection \<open>A failed request\<close>



subsection \<open>Messages are merged onto the defaults\<close>

text \<open>
  Claim C4, as the source has it: an override given to an earlier \<^verbatim>\<open>setLang\<close> and
  left out of a later one is not retained. Here \<open>L_empty\<close> is overridden first, the
  second call overrides only \<open>L_error\<close>, and \<open>L_empty\<close> is back at its default.
\<close>

theorem setLang_earlier_override_counterexample:
  "map_sum id (\<lambda>s. lang s L_empty) (setLang [L_empty \<mapsto> ''Pick one''] example_search) = Inr ''Pick one''
   \<and> [L_error \<mapsto> ''Oops''] L_empty = None
   \<and> map_sum id (\<lambda>s. lang s L_empty)
        (and_then (setLang [L_empty \<mapsto> ''Pick one''] example_search) (setLang [L_error \<mapsto> ''Oops'']))
       = Inr (lang_defaults L_empty)
   \<and> lang_defaults L_empty \<noteq> ''Pick one''"
  by (simp add: example_search_eq setLang_def Let_def processLangParams_def and_then_def)

text \<open>
  Claim C4, amended. On a Scroll whose \<open>search\<close> flag agrees with the presence of the
  search elements, \<^verbatim>\<open>setLang\<close> succeeds and merges the overrides onto the built-in
  defaults: afterwards a key that the overrides hold has the override's value, and every
  other key has its default value, whatever its value was before the call.
\<close>

theorem setLang_merges_onto_defaults:
  assumes "search s = (search_ui s \<noteq> None)"
  shows "\<exists>s'. setLang params s = Inr s'
           \<and> (\<forall>k. lang s' k = (case params k of Some v \<Rightarrow> v | None \<Rightarrow> lang_defaults k))"
  using assms by (auto simp add: setLang_def Let_def processLangParams_def)

theorem setLang_merges_onto_defaults_witness:
  "search example_search = (search_ui example_search \<noteq> None)
   \<and> (\<exists>s'. setLang [L_error \<mapsto> ''Oops''] example_search = Inr s'
          \<and> lang s' L_error = ''Oops'' \<and> lang s' L_searching = ''Recherche...'')"
proof -
  have h: "search example_search = (search_ui example_search \<noteq> None)"
    by (simp add: example_search_eq)
  from setLang_merges_onto_defaults [OF h, of "[L_error \<mapsto> ''Oops'']"]
  obtain s' where s': "setLang [L_error \<mapsto> ''Oops''] example_search = Inr s'"
    "\<forall>k. lang s' k = (case [L_error \<mapsto> ''Oops''] k of Some v \<Rightarrow> v | None \<Rightarrow> lang_defaults k)"
    by blast
  from s'(2) have "lang s' L_error = ''Oops''" "lang s' L_searching = ''Recherche...''"
    by simp_all
  with s'(1) h show ?thesis by blast
qed

subsection \<open>The button after setLang\<close>

text \<open>
  Claim C9 at a failing input. On the multiple select of the example the user clicks
  the row of Paris, and the button shows \<open>''Paris''\<close>. A call of \<^verbatim>\<open>setLang\<close> with no
  overrides then writes the empty-selection message on the button, although Paris is
  still selected.
\<close>

theorem setLang_overwrites_selection_summary:
  "map_sum id button_textContent (click_row 1 example_search) = Inr ''Paris''
   \<and> map_sum id (\<lambda>s. (button_textContent s, map opt_selected (node_options s)))
        (and_then (click_row 1 example_search) (setLang Map.empty))
       = Inr (lang_defaults L_empty, [False, True])"
  by (simp add: example_search_eq click_row_def Let_def example_options_def drawSelectedOptions_def
      setLang_def processLangParams_def and_then_def)

subsection \<open>What is handed to processData\<close>

text \<open>
  Claim C2 at a failing input. With \<^verbatim>\<open>maxResults\<close> configured as 2 and a response of
  three records, \<^verbatim>\<open>processData\<close> is handed all three (the slice is cut at 300), three
  options are shown, and the status line names the total 3 as exceeding the limit.
\<close>

theorem fetch_then_hands_over_more_than_maxResults:
  "maxResults (processAjaxParams (example_given None (Some 2))) = 2
   \<and> ajax (example_remote_scroll None (Some 2)) = Some (processAjaxParams (example_given None (Some 2)))
   \<and> handed_to_processData [''Ann'', ''Bob'', ''Cy''] = [''Ann'', ''Bob'', ''Cy'']
   \<and> map_sum id (\<lambda>s. (map opt_value (node_options s), map_option status_textContent (search_ui s)))
        (fetch_then h (processAjaxParams (example_given None (Some 2))) [''Ann'', ''Bob'', ''Cy'']
           (example_remote_scroll None (Some 2)))
       = Inr ([''Ann'', ''Bob'', ''Cy''],
              Some (''3 '' @ lang_defaults L_results @ '' (3 '' @ lang_defaults L_moreResults @ '')''))"
proof -
  have "decimal_of_nat 3 = ''3''"
    by (simp add: decimal_of_nat.simps digit_char_def)
  then have n3: "decimal_of_nat (Suc (Suc (Suc 0))) = ''3''"
    by (simp add: numeral_3_eq_3)
  show ?thesis
    by (simp add: processAjaxParams_def example_given_def handed_to_processData_def fetch_then_def
      Let_def replaceChoices_def addOptions_eq wipeOptions_eq example_remote_scroll_eq
      updateSearchBarStatus_def new_option_def getValueFromObject_def exceeds_maxResults_def n3
      example_search_lang)
qed

subsection \<open>The event loop, step by step\<close>

lemma search_input_listener_remote:
  assumes "search_ui s = Some ui" and "ajax s = Some a"
  shows "\<exists>s' msg. search_input_listener v s = Inr s'
           \<and> search_ui s' = Some (ui\<lparr> status_textContent := msg \<rparr>) \<and> ajax s' = Some a"
  using assms
  by (auto simp add: search_input_listener_def Let_def updateSearchBarStatus_def wipeOptions_eq)

lemma input_event_remote:
  assumes ui: "search_ui (widget w) = Some ui" and a: "ajax (widget w) = Some a"
    and d: "debounces ui = [d]"
  shows "\<exists>ui'. search_ui (widget (input_event v w)) = Some ui'
           \<and> search_value ui' = v
           \<and> debounces ui' = [Some (next_timer_id w)]
           \<and> ajax (widget (input_event v w)) = Some a
           \<and> timers (input_event v w) =
                (case d of None \<Rightarrow> timers w | Some i \<Rightarrow> filter (\<lambda>tm. fst tm \<noteq> i) (timers w))
                @ [(next_timer_id w, now w + 1000)]
           \<and> fetch_calls (input_event v w) = fetch_calls w
           \<and> now (input_event v w) = now w
           \<and> next_timer_id (input_event v w) = next_timer_id w + 1"
proof -
  let ?s1 = "(widget w)\<lparr> search_ui := Some (ui\<lparr> search_value := v \<rparr>) \<rparr>"
  have "search_ui ?s1 = Some (ui\<lparr> search_value := v \<rparr>)" and "ajax ?s1 = Some a"
    using a by simp_all
  from search_input_listener_remote [OF this, of v]
  obtain s' msg where s': "search_input_listener v ?s1 = Inr s'"
    "search_ui s' = Some (ui\<lparr> search_value := v, status_textContent := msg \<rparr>)" "ajax s' = Some a"
    by auto
  show ?thesis
    using ui d s'
    by (cases d)
       (simp_all add: input_event_def Let_def ajax_input_listener_def clearTimeout_def
          setTimeout_def split_def)
qed

lemma advance_to_none_due:
  assumes "now w \<le> t" and "filter (\<lambda>tm. snd tm \<le> t) (timers w) = []"
  shows "advance_to t w = w\<lparr> now := t \<rparr>"
proof -
  have "filter (\<lambda>tm. t < snd tm) (timers w) = timers w"
    using assms(2) by (induction "timers w") (auto simp: filter_empty_conv filter_id_conv)
  then show ?thesis using assms by (simp add: advance_to_def Let_def)
qed

lemma advance_to_one_due:
  assumes "now w \<le> t" and "timers w = [(i, due)]" and "due \<le> t"
  shows "advance_to t w = (debounce_callback (w\<lparr> timers := [], now := due \<rparr>))\<lparr> now := t \<rparr>"
  using assms by (simp add: advance_to_def Let_def)

lemma debounce_callback_eq:
  assumes "search_ui (widget w) = Some ui" and "ajax (widget w) = Some a"
  shows "debounce_callback w =
     (if minLength a \<le> int (length (trim (toLowerCase (search_value ui))))
      then w\<lparr> fetch_calls := fetch_calls w @
              [\<lparr> fetch_params = a, fetch_search = trim (toLowerCase (search_value ui)) \<rparr>] \<rparr>
      else w)"
  using assms by (simp add: debounce_callback_def Let_def fetchData_def)

lemma keystroke_remote:
  assumes ui: "search_ui (widget w) = Some ui" and a: "ajax (widget w) = Some a"
    and d: "debounces ui = [d]"
    and t: "now w \<le> fst k"
    and tm: "timers w = [] \<or> (\<exists>i due. timers w = [(i, due)] \<and> d = Some i \<and> fst k < due)"
  shows "\<exists>ui'. search_ui (widget (keystroke w k)) = Some ui'
           \<and> search_value ui' = snd k
           \<and> debounces ui' = [Some (next_timer_id w)]
           \<and> ajax (widget (keystroke w k)) = Some a
           \<and> timers (keystroke w k) = [(next_timer_id w, fst k + 1000)]
           \<and> fetch_calls (keystroke w k) = fetch_calls w
           \<and> now (keystroke w k) = fst k"
proof -
  have none: "filter (\<lambda>tm. snd tm \<le> fst k) (timers w) = []"
    using tm by auto
  have adv: "advance_to (fst k) w = w\<lparr> now := fst k \<rparr>"
    using advance_to_none_due [OF t none] .
  have "search_ui (widget (w\<lparr> now := fst k \<rparr>)) = Some ui" "ajax (widget (w\<lparr> now := fst k \<rparr>)) = Some a"
    using ui a by simp_all
  from input_event_remote [OF this d, of "snd k"]
  show ?thesis
    using tm by (auto simp add: keystroke_def adv split: option.splits)
qed

lemma keystrokes_burst:
  assumes "search_ui (widget w) = Some ui" and "ajax (widget w) = Some a"
    and "debounces ui = [d]"
    and "burst (k # ks)"
    and "now w \<le> fst k"
    and "timers w = [] \<or> (\<exists>i due. timers w = [(i, due)] \<and> d = Some i \<and> fst k < due)"
  shows "\<exists>ui' i. search_ui (widget (keystrokes (k # ks) w)) = Some ui'
           \<and> search_value ui' = snd (last (k # ks))
           \<and> ajax (widget (keystrokes (k # ks) w)) = Some a
           \<and> timers (keystrokes (k # ks) w) = [(i, fst (last (k # ks)) + 1000)]
           \<and> fetch_calls (keystrokes (k # ks) w) = fetch_calls w
           \<and> now (keystrokes (k # ks) w) = fst (last (k # ks))"
  using assms
proof (induction ks arbitrary: w ui d k)
  case Nil
  from keystroke_remote [OF Nil(1) Nil(2) Nil(3) Nil(5) Nil(6)]
  show ?case by (auto simp add: keystrokes_def)
next
  case (Cons k' ks)
  from keystroke_remote [OF Cons.prems(1) Cons.prems(2) Cons.prems(3) Cons.prems(5) Cons.prems(6)]
  obtain ui1 where 1: "search_ui (widget (keystroke w k)) = Some ui1"
    "debounces ui1 = [Some (next_timer_id w)]"
    "ajax (widget (keystroke w k)) = Some a"
    "timers (keystroke w k) = [(next_timer_id w, fst k + 1000)]"
    "fetch_calls (keystroke w k) = fetch_calls w"
    "now (keystroke w k) = fst k"
    by auto
  from Cons.prems(4) have b: "burst (k' # ks)" and le: "fst k \<le> fst k'" and lt: "fst k' < fst k + 1000"
    by simp_all
  have 2: "now (keystroke w k) \<le> fst k'" using 1(6) le by simp
  have 3: "timers (keystroke w k) = [] \<or>
      (\<exists>i due. timers (keystroke w k) = [(i, due)] \<and> Some (next_timer_id w) = Some i \<and> fst k' < due)"
    using 1(4) lt by simp
  from Cons.IH [OF 1(1) 1(3) 1(2) b 2 3]
  show ?case using 1(5) by (simp add: keystrokes_def)
qed

lemma burst_take: "burst ks \<Longrightarrow> burst (take n ks)"
proof (induction ks arbitrary: n rule: burst.induct)
  case 1
  then show ?case by simp
next
  case (2 k)
  then show ?case by (cases n) simp_all
next
  case (3 k k' ks)
  show ?case
  proof (cases n)
    case 0
    then show ?thesis by simp
  next
    case (Suc m)
    from 3 have "burst (take m (k' # ks))" by simp
    with 3(2) Suc show ?thesis by (cases m) simp_all
  qed
qed

subsection \<open>Debouncing\<close>

text \<open>
  Claim C7, as the source has it: a burst does not always end in exactly one network
  call, and a Scroll can have two timers pending. With the default \<^verbatim>\<open>minLength\<close> of 4,
  the burst that leaves \<open>''ab''\<close> in the search bar issues no call at all. After a second
  call of \<^verbatim>\<open>addAjax\<close> one keystroke leaves two timers pending, and two calls are issued
  for it.
\<close>

theorem burst_one_call_counterexample:
  "burst [(0, ''a''), (100, ''ab'')]
   \<and> fetch_calls (advance_to 5000 (keystrokes [(0, ''a''), (100, ''ab'')] (example_page None None))) = []
   \<and> map snd (timers (keystrokes [(0, ''pari'')] (page_of example_remote_twice))) = [1000, 1000]
   \<and> map fetch_search
        (fetch_calls (advance_to 5000 (keystrokes [(0, ''pari'')] (page_of example_remote_twice))))
       = [''pari'', ''pari'']"
  by (simp add: example_page_eq example_remote_scroll_eq example_remote_twice_eq page_of_def
      example_search_eq event_loop_evals string_evals processAjaxParams_def example_given_def)

text \<open>
  Claim C7, amended. Take a Scroll on whose search bar \<^verbatim>\<open>addAjax\<close> registered one
  listener, at a moment when no timer is pending, or only the listener's own, not yet due
  at the first keystroke. Let a burst of keystrokes follow, each less than 1000 ms after
  its predecessor. Then at most one timer is pending after every keystroke of the burst:
  exactly the one set by that keystroke, due 1000 ms after it, the earlier one being
  cancelled. No network call is issued during the burst. Once 1000 ms have passed after
  the last keystroke, at most one call has been issued: exactly one, carrying the final
  value lower-cased and trimmed, when that value has at least \<^verbatim>\<open>minLength\<close>
  characters, and none otherwise; and no timer is left.
\<close>

theorem debounce_burst:
  assumes ui: "search_ui (widget w) = Some ui" and d: "debounces ui = [d]"
    and a: "ajax (widget w) = Some a"
    and tm: "timers w = [] \<or> (\<exists>i due. timers w = [(i, due)] \<and> d = Some i \<and> fst (hd ks) < due)"
    and ne: "ks \<noteq> []" and b: "burst ks" and t: "now w \<le> fst (hd ks)"
  shows "(\<forall>n \<le> length ks. length (timers (keystrokes (take n ks) w)) \<le> 1)
       \<and> (\<forall>n. 0 < n \<and> n \<le> length ks \<longrightarrow>
             (\<exists>i. timers (keystrokes (take n ks) w) = [(i, fst (ks ! (n - 1)) + 1000)]))
       \<and> fetch_calls (keystrokes ks w) = fetch_calls w
       \<and> (fst (last ks) + 1000 \<le> T \<longrightarrow>
            fetch_calls (advance_to T (keystrokes ks w)) =
              fetch_calls w @
              (if minLength a \<le> int (length (trim (toLowerCase (snd (last ks)))))
               then [\<lparr> fetch_params = a, fetch_search = trim (toLowerCase (snd (last ks))) \<rparr>]
               else [])
            \<and> timers (advance_to T (keystrokes ks w)) = [])"
proof -
  have prefix: "\<exists>i. timers (keystrokes (take n ks) w) = [(i, fst (ks ! (n - 1)) + 1000)]"
    if n: "0 < n" "n \<le> length ks" for n
  proof -
    from n ne obtain k ks' where tk: "take n ks = k # ks'" and hd: "k = hd ks"
      by (cases ks; cases n) auto
    have "burst (k # ks')" using burst_take [OF b, of n] tk by simp
    moreover have "now w \<le> fst k" using t hd by simp
    moreover have "timers w = [] \<or> (\<exists>i due. timers w = [(i, due)] \<and> d = Some i \<and> fst k < due)"
      using tm hd by simp
    ultimately obtain i where "timers (keystrokes (k # ks') w) = [(i, fst (last (k # ks')) + 1000)]"
      using keystrokes_burst [OF ui a d] by blast
    moreover have "last (k # ks') = ks ! (n - 1)"
    proof -
      have "take n ks \<noteq> []" using tk by simp
      then have "last (take n ks) = take n ks ! (length (take n ks) - 1)"
        by (rule last_conv_nth)
      also have "\<dots> = ks ! (n - 1)" using n by (simp add: min_def)
      finally show ?thesis using tk by simp
    qed
    ultimately show ?thesis using tk by auto
  qed
  have one: "\<forall>n \<le> length ks. length (timers (keystrokes (take n ks) w)) \<le> 1"
  proof (intro allI impI)
    fix n assume "n \<le> length ks"
    show "length (timers (keystrokes (take n ks) w)) \<le> 1"
    proof (cases "n = 0")
      case True
      then show ?thesis using tm by (auto simp add: keystrokes_def)
    next
      case False
      with prefix [of n] \<open>n \<le> length ks\<close> show ?thesis by auto
    qed
  qed
  from ne obtain k ks' where ks: "ks = k # ks'" by (cases ks) auto
  have "timers w = [] \<or> (\<exists>i due. timers w = [(i, due)] \<and> d = Some i \<and> fst k < due)"
    using tm ks by simp
  from keystrokes_burst [OF ui a d b [unfolded ks] t [unfolded ks, simplified] this]
  obtain ui' i where fin: "search_ui (widget (keystrokes ks w)) = Some ui'"
    "search_value ui' = snd (last ks)"
    "ajax (widget (keystrokes ks w)) = Some a"
    "timers (keystrokes ks w) = [(i, fst (last ks) + 1000)]"
    "fetch_calls (keystrokes ks w) = fetch_calls w"
    "now (keystrokes ks w) = fst (last ks)"
    unfolding ks by blast
  have fire: "fetch_calls (advance_to T (keystrokes ks w)) =
              fetch_calls w @
              (if minLength a \<le> int (length (trim (toLowerCase (snd (last ks)))))
               then [\<lparr> fetch_params = a, fetch_search = trim (toLowerCase (snd (last ks))) \<rparr>]
               else [])
            \<and> timers (advance_to T (keystrokes ks w)) = []"
    if T: "fst (last ks) + 1000 \<le> T"
  proof -
    have "now (keystrokes ks w) \<le> T" using fin(6) T by simp
    from advance_to_one_due [OF this fin(4) T]
    have adv: "advance_to T (keystrokes ks w) =
      (debounce_callback ((keystrokes ks w)\<lparr> timers := [], now := fst (last ks) + 1000 \<rparr>))\<lparr> now := T \<rparr>" .
    have "search_ui (widget ((keystrokes ks w)\<lparr> timers := [], now := fst (last ks) + 1000 \<rparr>)) = Some ui'"
      "ajax (widget ((keystrokes ks w)\<lparr> timers := [], now := fst (last ks) + 1000 \<rparr>)) = Some a"
      using fin by simp_all
    from debounce_callback_eq [OF this] show ?thesis
      unfolding adv using fin(2) fin(5) by simp
  qed
  from one prefix fin(5) fire show ?thesis by blast
qed

theorem debounce_burst_witness:
  "search_ui (widget (example_page None None)) =
     Some \<lparr> search_value = [], search_placeholder = lang_defaults L_searchPlaceholder,
            status_textContent = lang_defaults L_startSearch, status_display = ''block'',
            debounces = [None] \<rparr>
   \<and> ajax (widget (example_page None None)) = Some (processAjaxParams (example_given None None))
   \<and> timers (example_page None None) = []
   \<and> burst [(0, ''pa''), (300, ''pari''), (900, ''Paris '')]
   \<and> length (timers (keystrokes (take 2 [(0, ''pa''), (300, ''pari''), (900, ''Paris '')]) (example_page None None))) \<le> 1
   \<and> fetch_calls (keystrokes [(0, ''pa''), (300, ''pari''), (900, ''Paris '')] (example_page None None)) = []
   \<and> fetch_calls (advance_to 1900 (keystrokes [(0, ''pa''), (300, ''pari''), (900, ''Paris '')] (example_page None None)))
       = [\<lparr> fetch_params = processAjaxParams (example_given None None), fetch_search = ''paris'' \<rparr>]"
proof -
  let ?ui = "\<lparr> search_value = [], search_placeholder = lang_defaults L_searchPlaceholder,
            status_textContent = lang_defaults L_startSearch, status_display = ''block'',
            debounces = [None] \<rparr>"
  let ?ks = "[(0::nat, ''pa''), (300, ''pari''), (900, ''Paris '')]"
  have h1: "search_ui (widget (example_page None None)) = Some ?ui"
    by (simp add: example_page_eq example_remote_scroll_eq)
  have h2: "debounces ?ui = [None]" by simp
  have h3: "ajax (widget (example_page None None)) = Some (processAjaxParams (example_given None None))"
    by (simp add: example_page_eq example_remote_scroll_eq)
  have t0: "timers (example_page None None) = []" by (simp add: example_page_eq)
  then have h4: "timers (example_page None None) = [] \<or>
      (\<exists>i due. timers (example_page None None) = [(i, due)] \<and> None = Some i \<and> fst (hd ?ks) < due)"
    by (rule disjI1)
  have h5: "?ks \<noteq> []" by simp
  have h6: "burst ?ks" by simp
  have h7: "now (example_page None None) \<le> fst (hd ?ks)" by (simp add: example_page_eq)
  have m: "minLength (processAjaxParams (example_given None None)) = 4"
    by (simp add: processAjaxParams_def example_given_def)
  have v: "trim (toLowerCase ''Paris '') = ''paris''" by (simp add: string_evals)
  have f: "fetch_calls (example_page None None) = []" by (simp add: example_page_eq)
  note r = debounce_burst [OF h1 h2 h3 h4 h5 h6 h7, of 1900]
  from r have "\<forall>n \<le> length ?ks. length (timers (keystrokes (take n ?ks) (example_page None None))) \<le> 1"
    by (rule conjunct1)
  then have "2 \<le> length ?ks \<longrightarrow> length (timers (keystrokes (take 2 ?ks) (example_page None None))) \<le> 1"
    by (rule spec)
  then have r1: "length (timers (keystrokes (take 2 ?ks) (example_page None None))) \<le> 1"
    by simp
  from r have r2: "fetch_calls (keystrokes ?ks (example_page None None)) = []"
    by (simp add: f)
  from r have r3: "fetch_calls (advance_to 1900 (keystrokes ?ks (example_page None None)))
       = [\<lparr> fetch_params = processAjaxParams (example_given None None), fetch_search = ''paris'' \<rparr>]"
    by (simp add: f m v)
  show ?thesis using h1 h3 t0 h6 r1 r2 r3 by (intro conjI)
qed

subsection \<open>Short queries\<close>

text \<open>
  Where the configured \<^verbatim>\<open>minLength\<close> is at most 4, a value shorter than it is also
  shorter than the listener's constant: the options and the rows are wiped, the
  min-length message is shown, and the timer's callback does not fetch.
\<close>

lemma short_query_cleared_up_to_four:
  assumes ui: "search_ui (widget w) = Some ui" and a: "ajax (widget w) = Some a"
    and d: "debounces ui = [d]" and tm: "timers w = []"
    and m: "minLength a \<le> 4"
    and short: "int (length (trim (toLowerCase v))) < minLength a"
    and t: "now w \<le> t" and T: "t + 1000 \<le> T"
  shows "node_options (widget (advance_to T (keystroke w (t, v)))) = []
       \<and> list_items (widget (advance_to T (keystroke w (t, v)))) = []
       \<and> map_option status_textContent (search_ui (widget (advance_to T (keystroke w (t, v)))))
           = Some (lang (widget w) L_minLengthAlert)
       \<and> fetch_calls (advance_to T (keystroke w (t, v))) = fetch_calls w"
proof -
  have adv: "advance_to t w = w\<lparr> now := t \<rparr>"
    using advance_to_none_due [of w t] t tm by simp
  from m short have lt4: "length (trim (toLowerCase v)) < 4" by simp
  let ?k = "keystroke w (t, v)"
  have k: "widget ?k = (widget w)\<lparr> node_options := [], list_items := [],
              search_ui := Some (ui\<lparr> search_value := v,
                 status_textContent := lang (widget w) L_minLengthAlert,
                 debounces := [Some (next_timer_id w)] \<rparr>) \<rparr>"
    "timers ?k = [(next_timer_id w, t + 1000)]" "fetch_calls ?k = fetch_calls w" "now ?k = t"
    using ui a d tm lt4
    by (cases d; simp add: keystroke_def adv input_event_def search_input_listener_def Let_def
          updateSearchBarStatus_def wipeOptions_eq ajax_input_listener_def clearTimeout_def
          setTimeout_def split_def)+
  have "now ?k \<le> T" using k(4) T by simp
  from advance_to_one_due [OF this k(2) T]
  have "advance_to T ?k = (debounce_callback (?k\<lparr> timers := [], now := t + 1000 \<rparr>))\<lparr> now := T \<rparr>" .
  moreover have "debounce_callback (?k\<lparr> timers := [], now := t + 1000 \<rparr>) = ?k\<lparr> timers := [], now := t + 1000 \<rparr>"
    using short a by (simp add: debounce_callback_def Let_def k(1))
  ultimately show ?thesis by (simp add: k)
qed

text \<open>
  Claim C1 at a failing input. With \<^verbatim>\<open>minLength\<close> configured as 6 the user types
  \<open>''Hello''\<close>, five characters. The listener compares with the constant 4: the options
  and the rows are left in place and the status line shows the searching message, not the
  min-length message; no network call is issued.
\<close>

theorem short_query_threshold_is_four:
  "minLength (processAjaxParams (example_given (Some 6) None)) = 6
   \<and> length (trim (toLowerCase ''Hello'')) = 5
   \<and> ajax (widget (example_page (Some 6) None)) = Some (processAjaxParams (example_given (Some 6) None))
   \<and> node_options (widget (advance_to 5000 (keystroke (example_page (Some 6) None) (0, ''Hello''))))
       = example_options
   \<and> map a_textContent (list_items (widget (advance_to 5000 (keystroke (example_page (Some 6) None) (0, ''Hello'')))))
       = [''Lyon'', ''Paris'']
   \<and> map_option status_textContent
        (search_ui (widget (advance_to 5000 (keystroke (example_page (Some 6) None) (0, ''Hello'')))))
       = Some (lang_defaults L_searching)
   \<and> fetch_calls (advance_to 5000 (keystroke (example_page (Some 6) None) (0, ''Hello''))) = []"
  by (simp add: example_page_eq example_remote_scroll_eq page_of_def
      example_search_eq event_loop_evals string_evals processAjaxParams_def example_given_def)

end
